theory Spec2Isabelle
  imports Main "HOL-Library.AList"
begin

section \<open>Python values and store documents\<close>

text \<open>
  The values that a document store hands to \<^verbatim>\<open>main.py\<close> (\<^verbatim>\<open>Dict[str, Any]\<close>): a
  dictionary is an association list in insertion order, as Python's \<^verbatim>\<open>dict\<close> keeps it.
  An element of a \<open>string\<close> stands for one character of a Python \<^verbatim>\<open>str\<close>. Floating point
  values are left out.
\<close>

datatype pyval =
    VNone
  | VBool bool
  | VInt int
  | VStr string
  | VObjectId string
  | VList "pyval list"
  | VDict "(string \<times> pyval) list"

text \<open>
  \<^verbatim>\<open>serialize_doc\<close> (main.py, lines 21-27). The builtin \<^verbatim>\<open>str\<close> is the parameter
  \<open>str_of\<close>. \<^verbatim>\<open>d.pop("_id")\<close> removes the key, and the assignment \<^verbatim>\<open>d["id"] = ...\<close>
  overwrites an existing key in place or appends a new one.
\<close>

fun serialize_doc :: "(pyval \<Rightarrow> string) \<Rightarrow> pyval \<Rightarrow> pyval" where
  "serialize_doc str_of (VDict doc) =
     (case map_of doc ''_id'' of
        Some v \<Rightarrow> VDict (AList.update ''id'' (VStr (str_of v)) (AList.delete ''_id'' doc))
      | None \<Rightarrow> VDict doc)"
| "serialize_doc str_of doc = doc"

section \<open>The schemas of schemas.py\<close>

record Capability =
  name :: string
  summary :: string
  icon :: "string option"

text \<open>
  The fields \<^verbatim>\<open>name\<close> and \<^verbatim>\<open>message\<close> of \<^verbatim>\<open>Inquiry\<close>, and both fields of
  \<^verbatim>\<open>InquiryResponse\<close>, carry a prefix here, since \<open>name\<close> is taken by \<open>Capability\<close> and
  \<open>id\<close> by the identity function.
\<close>

record Inquiry =
  inquiry_name :: string
  email :: string
  phone :: "string option"
  company :: "string option"
  inquiry_message :: string
  service :: "string option"

record InquiryResponse =
  response_id :: string
  response_message :: string

text \<open>
  The exceptions that can leave \<^verbatim>\<open>list_capabilities\<close>: an exception \<open>e\<close> raised inside
  the database module, kept as \<^verbatim>\<open>str(e)\<close>; pydantic's \<^verbatim>\<open>ValidationError\<close>; and the
  \<^verbatim>\<open>TypeError\<close> of \<^verbatim>\<open>**\<close> applied to something that is not a mapping. Only subclasses of
  \<^verbatim>\<open>Exception\<close> are modelled (no interrupts).
\<close>

datatype exn = StoreRaised string | ValidationError | TypeError

text \<open>A required field annotated \<^verbatim>\<open>str\<close>: present and a string.\<close>

fun required_str :: "pyval option \<Rightarrow> string option" where
  "required_str (Some (VStr s)) = Some s"
| "required_str _ = None"

text \<open>
  A field annotated \<^verbatim>\<open>Optional[str]\<close> with default \<^verbatim>\<open>None\<close>: absent, \<^verbatim>\<open>None\<close> or a
  string; the outer \<open>None\<close> is a validation failure.
\<close>

fun optional_str :: "pyval option \<Rightarrow> string option option" where
  "optional_str None = Some None"
| "optional_str (Some VNone) = Some None"
| "optional_str (Some (VStr s)) = Some (Some s)"
| "optional_str _ = None"

text \<open>
  \<^verbatim>\<open>Capability(**x)\<close>: keyword arguments that are not fields are ignored (pydantic's
  default), the three fields are validated.
\<close>

fun Capability_kwargs :: "pyval \<Rightarrow> exn + Capability" where
  "Capability_kwargs (VDict kw) =
     (case required_str (map_of kw ''name'') of
        None \<Rightarrow> Inl ValidationError
      | Some n \<Rightarrow>
        (case required_str (map_of kw ''summary'') of
           None \<Rightarrow> Inl ValidationError
         | Some sm \<Rightarrow>
           (case optional_str (map_of kw ''icon'') of
              None \<Rightarrow> Inl ValidationError
            | Some ic \<Rightarrow> Inr \<lparr>name = n, summary = sm, icon = ic\<rparr>)))"
| "Capability_kwargs x = Inl TypeError"

text \<open>
  The comprehension \<^verbatim>\<open>[Capability(**serialize_doc(d)) for d in docs]\<close> (lines 117 and
  133): the first document that fails raises.
\<close>

fun items_of :: "(pyval \<Rightarrow> string) \<Rightarrow> pyval list \<Rightarrow> exn + Capability list" where
  "items_of str_of [] = Inr []"
| "items_of str_of (d # docs) =
     (case Capability_kwargs (serialize_doc str_of d) of
        Inl e \<Rightarrow> Inl e
      | Inr c \<Rightarrow>
        (case items_of str_of docs of
           Inl e \<Rightarrow> Inl e
         | Inr cs \<Rightarrow> Inr (c # cs)))"

subsection \<open>The JSON schema of a model\<close>

text \<open>
  A field declaration of schemas.py: its name, its annotation, and whether it is
  \<^verbatim>\<open>Field(...)\<close> (required) or \<^verbatim>\<open>Field(default)\<close>.
\<close>

datatype annotation = StrT | EmailStrT | IntT | FloatT | BoolT | OptionalT annotation

datatype field_default = Ellipsis | DefaultNone | DefaultBool bool

type_synonym field_decl = "string \<times> annotation \<times> field_default"

definition User_fields :: "field_decl list" where
  "User_fields =
     [(''name'', StrT, Ellipsis),
      (''email'', EmailStrT, Ellipsis),
      (''address'', StrT, Ellipsis),
      (''age'', OptionalT IntT, DefaultNone),
      (''is_active'', BoolT, DefaultBool True)]"

definition Product_fields :: "field_decl list" where
  "Product_fields =
     [(''title'', StrT, Ellipsis),
      (''description'', OptionalT StrT, DefaultNone),
      (''price'', FloatT, Ellipsis),
      (''category'', StrT, Ellipsis),
      (''in_stock'', BoolT, DefaultBool True)]"

definition Capability_fields :: "field_decl list" where
  "Capability_fields =
     [(''name'', StrT, Ellipsis),
      (''summary'', StrT, Ellipsis),
      (''icon'', OptionalT StrT, DefaultNone)]"

definition Inquiry_fields :: "field_decl list" where
  "Inquiry_fields =
     [(''name'', StrT, Ellipsis),
      (''email'', EmailStrT, Ellipsis),
      (''phone'', OptionalT StrT, DefaultNone),
      (''company'', OptionalT StrT, DefaultNone),
      (''message'', StrT, Ellipsis),
      (''service'', OptionalT StrT, DefaultNone)]"

text \<open>
  What \<^verbatim>\<open>model_json_schema()\<close> says about the fields: one property for each declared
  field, and under \<^verbatim>\<open>required\<close> the fields declared without a default.
\<close>

record json_schema =
  properties :: "(string \<times> annotation) list"
  required :: "string list"

definition is_required :: "field_decl \<Rightarrow> bool" where
  "is_required f = (snd (snd f) = Ellipsis)"

definition model_json_schema :: "field_decl list \<Rightarrow> json_schema" where
  "model_json_schema decls =
     \<lparr>properties = map (\<lambda>f. (fst f, fst (snd f))) decls,
      required = map fst (filter is_required decls)\<rparr>"

text \<open>\<^verbatim>\<open>get_schema\<close> (main.py, lines 84-91).\<close>

definition get_schema :: "(string \<times> json_schema) list" where
  "get_schema =
     [(''user'', model_json_schema User_fields),
      (''product'', model_json_schema Product_fields),
      (''capability'', model_json_schema Capability_fields),
      (''inquiry'', model_json_schema Inquiry_fields)]"

section \<open>The database module\<close>

text \<open>
  \<^verbatim>\<open>from database import db, get_documents, create_document\<close>: the module is not part of
  the repository, so its three names are the fields of a record, over any type \<open>'s\<close> of
  store states. Each function takes the state and returns the new one with its result;
  \<open>Inl msg\<close> is an exception \<open>e\<close> with \<^verbatim>\<open>str(e) = msg\<close>. What \<^verbatim>\<open>create_document\<close> is
  given is a dictionary (the seeded defaults) or a validated \<^verbatim>\<open>Inquiry\<close>.
\<close>

datatype document = DictDoc "(string \<times> pyval) list" | ModelDoc Inquiry

record ('h, 's) database =
  db :: "'h option"
  get_documents :: "string \<Rightarrow> 's \<Rightarrow> (string + pyval list) \<times> 's"
  create_document :: "string \<Rightarrow> document \<Rightarrow> 's \<Rightarrow> (string + string) \<times> 's"

section \<open>The endpoints of main.py\<close>

text \<open>The dictionaries \<^verbatim>\<open>defaults\<close> of lines 121-126.\<close>

definition defaults :: "(string \<times> pyval) list list" where
  "defaults =
     [[(''name'', VStr ''CNC Machining''),
       (''summary'', VStr ''Precision milling and turning for metals and plastics''),
       (''icon'', VStr ''settings'')],
      [(''name'', VStr ''Sheet Metal Fabrication''),
       (''summary'', VStr ''Laser cutting, bending, and assembly for prototypes to production''),
       (''icon'', VStr ''square'')],
      [(''name'', VStr ''Welding''),
       (''summary'', VStr ''Certified MIG/TIG welding for structural and aesthetic parts''),
       (''icon'', VStr ''hammer'')],
      [(''name'', VStr ''Powder Coating''),
       (''summary'', VStr ''Durable finishes with a wide range of colors and textures''),
       (''icon'', VStr ''paintbrush'')]]"

text \<open>
  The loop of lines 127-131: one \<^verbatim>\<open>create_document\<close> for each dictionary, in order; an
  exception is swallowed and the loop goes on from the state the failed call left.
\<close>

fun seed :: "('h, 's) database \<Rightarrow> (string \<times> pyval) list list \<Rightarrow> 's \<Rightarrow> 's" where
  "seed m [] s = s"
| "seed m (d # ds) s =
     (case create_document m ''capability'' (DictDoc d) s of
        (Inl e, s') \<Rightarrow> seed m ds s'
      | (Inr inserted_id, s') \<Rightarrow> seed m ds s')"

text \<open>
  \<^verbatim>\<open>list_capabilities\<close> (lines 96-135). The outcome of the import is the argument
  \<open>imported\<close>: \<open>None\<close> when the import raises, the module otherwise. The result is the
  returned list or the exception that leaves the function, with the store's new state.
\<close>

definition list_capabilities ::
    "(pyval \<Rightarrow> string) \<Rightarrow> ('h, 's) database option \<Rightarrow> 's \<Rightarrow> (exn + Capability list) \<times> 's" where
  "list_capabilities str_of imported s =
     (case imported of
        None \<Rightarrow>
          (Inr [\<lparr>name = ''CNC Machining'',
                 summary = ''Precision milling and turning for metals and plastics'',
                 icon = Some ''settings''\<rparr>,
                \<lparr>name = ''Sheet Metal Fabrication'',
                 summary = ''Laser cutting, bending, and assembly for prototypes to production'',
                 icon = Some ''square''\<rparr>,
                \<lparr>name = ''Welding'',
                 summary = ''Certified MIG/TIG welding for structural and aesthetic parts'',
                 icon = Some ''hammer''\<rparr>], s)
      | Some m \<Rightarrow>
          (case db m of
             None \<Rightarrow>
               (Inr [\<lparr>name = ''CNC Machining'',
                      summary = ''Precision milling and turning for metals and plastics'',
                      icon = Some ''settings''\<rparr>,
                     \<lparr>name = ''Sheet Metal Fabrication'',
                      summary = ''Laser cutting, bending, and assembly for prototypes to production'',
                      icon = Some ''square''\<rparr>,
                     \<lparr>name = ''Welding'',
                      summary = ''Certified MIG/TIG welding for structural and aesthetic parts'',
                      icon = Some ''hammer''\<rparr>], s)
           | Some h \<Rightarrow>
               (case get_documents m ''capability'' s of
                  (Inl e, s1) \<Rightarrow> (Inl (StoreRaised e), s1)
                | (Inr docs, s1) \<Rightarrow>
                    (case items_of str_of docs of
                       Inl e \<Rightarrow> (Inl e, s1)
                     | Inr items \<Rightarrow>
                         if length items = 0 then
                           (case get_documents m ''capability'' (seed m defaults s1) of
                              (Inl e, s3) \<Rightarrow> (Inl (StoreRaised e), s3)
                            | (Inr docs', s3) \<Rightarrow>
                                (case items_of str_of docs' of
                                   Inl e \<Rightarrow> (Inl e, s3)
                                 | Inr items' \<Rightarrow> (Inr items', s3)))
                         else (Inr items, s1)))))"

text \<open>\<^verbatim>\<open>create_inquiry\<close> (lines 144-158); it raises nothing but \<^verbatim>\<open>HTTPException\<close>.\<close>

datatype HTTPException = HTTPException (status_code: nat) (detail: string)

definition create_inquiry ::
    "('h, 's) database option \<Rightarrow> Inquiry \<Rightarrow> 's \<Rightarrow> (HTTPException + InquiryResponse) \<times> 's" where
  "create_inquiry imported payload s =
     (case imported of
        None \<Rightarrow> (Inl (HTTPException 503 ''Database not configured''), s)
      | Some m \<Rightarrow>
          (case db m of
             None \<Rightarrow> (Inl (HTTPException 503 ''Database not available''), s)
           | Some h \<Rightarrow>
               (case create_document m ''inquiry'' (ModelDoc payload) s of
                  (Inr inserted_id, s') \<Rightarrow>
                    (Inr \<lparr>response_id = inserted_id,
                          response_message = ''Inquiry received. Our team will contact you shortly.''\<rparr>,
                     s')
                | (Inl e, s') \<Rightarrow>
                    (Inl (HTTPException 500 (''Failed to save inquiry: '' @ take 120 e)), s'))))"

section \<open>An in-memory store\<close>

text \<open>
  A store to run the endpoints on: the documents of all collections in insertion order,
  the outcomes of the coming inserts (\<open>Inr i\<close>: the insert succeeds and assigns the
  identifier \<open>i\<close>; \<open>Inl msg\<close>: it raises; no outcome left: it raises), and the exception
  that a query raises, if any. A stored document is the inserted fields after the
  identifier under \<^verbatim>\<open>_id\<close>.
\<close>

record mem_store =
  contents :: "(string \<times> pyval) list"
  script :: "(string + string) list"
  query_error :: "string option"

definition model_dump :: "Inquiry \<Rightarrow> (string \<times> pyval) list" where
  "model_dump p =
     [(''name'', VStr (inquiry_name p)),
      (''email'', VStr (email p)),
      (''phone'', case_option VNone VStr (phone p)),
      (''company'', case_option VNone VStr (company p)),
      (''message'', VStr (inquiry_message p)),
      (''service'', case_option VNone VStr (service p))]"

fun fields_of :: "document \<Rightarrow> (string \<times> pyval) list" where
  "fields_of (DictDoc d) = d"
| "fields_of (ModelDoc p) = model_dump p"

definition mem_get_documents :: "string \<Rightarrow> mem_store \<Rightarrow> (string + pyval list) \<times> mem_store" where
  "mem_get_documents c s =
     (case query_error s of
        Some msg \<Rightarrow> (Inl msg, s)
      | None \<Rightarrow> (Inr (map snd (filter (\<lambda>cd. fst cd = c) (contents s))), s))"

definition mem_create_document ::
    "string \<Rightarrow> document \<Rightarrow> mem_store \<Rightarrow> (string + string) \<times> mem_store" where
  "mem_create_document c data s =
     (case script s of
        [] \<Rightarrow> (Inl ''store is read-only'', s)
      | Inl msg # rest \<Rightarrow> (Inl msg, s\<lparr>script := rest\<rparr>)
      | Inr i # rest \<Rightarrow>
          (Inr i, s\<lparr>contents := contents s @ [(c, VDict ((''_id'', VObjectId i) # fields_of data))],
                    script := rest\<rparr>))"

definition mem_database :: "(unit, mem_store) database" where
  "mem_database =
     \<lparr>db = Some (), get_documents = mem_get_documents, create_document = mem_create_document\<rparr>"

text \<open>The record that an identifier names in a collection of the in-memory store.\<close>

definition mem_find :: "string \<Rightarrow> string \<Rightarrow> mem_store \<Rightarrow> pyval option" where
  "mem_find c i s =
     find (\<lambda>d. case d of VDict kv \<Rightarrow> map_of kv ''_id'' = Some (VObjectId i) | _ \<Rightarrow> False)
       (map snd (filter (\<lambda>cd. fst cd = c) (contents s)))"

text \<open>\<^verbatim>\<open>str\<close> on the values stored under \<^verbatim>\<open>_id\<close> in the in-memory store.\<close>

fun mem_str :: "pyval \<Rightarrow> string" where
  "mem_str (VObjectId i) = i"
| "mem_str (VStr s) = s"
| "mem_str v = ''''"

section \<open>Records and the documents that hold them\<close>

text \<open>
  The document \<open>d\<close> holds the capability \<open>c\<close>: a dictionary with the capability's name
  and summary as strings, and its icon as a string, or no icon (the key absent or
  \<^verbatim>\<open>None\<close>) when the capability has none. Other keys are free.
\<close>

definition holds :: "pyval \<Rightarrow> Capability \<Rightarrow> bool" where
  "holds d c =
     (case d of
        VDict kw \<Rightarrow>
          map_of kw ''name'' = Some (VStr (name c)) \<and>
          map_of kw ''summary'' = Some (VStr (summary c)) \<and>
          (case icon c of
             None \<Rightarrow> map_of kw ''icon'' = None \<or> map_of kw ''icon'' = Some VNone
           | Some i \<Rightarrow> map_of kw ''icon'' = Some (VStr i))
      | _ \<Rightarrow> False)"

section \<open>Auxiliary facts\<close>

subsection \<open>Validation of a document\<close>

lemma required_str_Some: "required_str x = Some s \<longleftrightarrow> x = Some (VStr s)"
  by (cases x rule: required_str.cases) simp_all

lemma required_str_None: "required_str x = None \<longleftrightarrow> (\<forall>s. x \<noteq> Some (VStr s))"
  by (cases x rule: required_str.cases) simp_all

lemma optional_str_Some:
  "optional_str x = Some ic \<longleftrightarrow>
     (case ic of None \<Rightarrow> x = None \<or> x = Some VNone | Some i \<Rightarrow> x = Some (VStr i))"
  by (cases x rule: optional_str.cases) (auto split: option.splits)

lemma optional_str_None:
  "optional_str x = None \<longleftrightarrow> x \<noteq> None \<and> x \<noteq> Some VNone \<and> (\<forall>i. x \<noteq> Some (VStr i))"
  by (cases x rule: optional_str.cases) simp_all

text \<open>
  \<^verbatim>\<open>Capability(**d)\<close> succeeds with \<open>c\<close> exactly when the document \<open>d\<close> holds \<open>c\<close>.
\<close>

lemma Capability_kwargs_holds: "Capability_kwargs d = Inr c \<longleftrightarrow> holds d c"
proof (cases d)
  case (VDict kw)
  obtain n sm ic where c: "c = \<lparr>name = n, summary = sm, icon = ic\<rparr>"
    by (cases c) simp
  show ?thesis
    unfolding VDict c holds_def
    by (auto simp: required_str_Some optional_str_Some required_str_None optional_str_None split: option.splits)
qed (simp_all add: holds_def)

text \<open>
  \<^verbatim>\<open>serialize_doc\<close> touches the keys \<^verbatim>\<open>_id\<close> and \<^verbatim>\<open>id\<close> only, which are no fields of
  \<^verbatim>\<open>Capability\<close>.
\<close>

lemma map_of_serialized:
  "map_of doc ''_id'' = Some v \<Longrightarrow>
   map_of (AList.update ''id'' (VStr (str_of v)) (AList.delete ''_id'' doc)) =
     ((map_of doc)(''_id'' := None))(''id'' \<mapsto> VStr (str_of v))"
  by (simp add: update_conv' delete_conv')

lemma Capability_kwargs_serialize_doc:
  "Capability_kwargs (serialize_doc str_of d) = Capability_kwargs d"
proof (cases d)
  case (VDict doc)
  show ?thesis
  proof (cases "map_of doc ''_id''")
    case None
    with VDict show ?thesis by simp
  next
    case (Some v)
    with VDict show ?thesis by (simp add: update_conv' delete_conv' cong: option.case_cong)
  qed
qed simp_all

lemma items_of_holds: "items_of str_of docs = Inr items \<longleftrightarrow> list_all2 holds docs items"
proof (induction docs arbitrary: items)
  case Nil
  then show ?case by auto
next
  case (Cons d docs)
  show ?case
  proof (cases items)
    case Nil
    then show ?thesis by (simp split: sum.splits)
  next
    case (Cons c cs)
    then show ?thesis
      using Cons.IH [of cs] Capability_kwargs_holds [of d c]
      by (auto simp: Capability_kwargs_serialize_doc split: sum.splits)
  qed
qed

lemma items_of_length: "items_of str_of docs = Inr items \<Longrightarrow> length items = length docs"
  by (simp add: items_of_holds list_all2_lengthD)

lemma items_of_Nil: "items_of str_of docs = Inr [] \<longleftrightarrow> docs = []"
  by (simp add: items_of_holds)

subsection \<open>The paths of \<^verbatim>\<open>list_capabilities\<close> behind a valid handle\<close>

lemma list_capabilities_handle:
  "imported = Some m \<Longrightarrow> db m = Some h \<Longrightarrow>
   get_documents m ''capability'' s = (r1, s1) \<Longrightarrow>
   get_documents m ''capability'' (seed m defaults s1) = (r2, s3) \<Longrightarrow>
   list_capabilities str_of imported s =
     (case r1 of
        Inl msg \<Rightarrow> (Inl (StoreRaised msg), s1)
      | Inr docs \<Rightarrow>
          if docs \<noteq> [] then (items_of str_of docs, s1)
          else (case r2 of
                  Inl msg \<Rightarrow> (Inl (StoreRaised msg), s3)
                | Inr docs' \<Rightarrow> (items_of str_of docs', s3)))"
proof -
  assume a: "imported = Some m" "db m = Some h" "get_documents m ''capability'' s = (r1, s1)"
    "get_documents m ''capability'' (seed m defaults s1) = (r2, s3)"
  show ?thesis
  proof (cases r1)
    case (Inl msg)
    with a show ?thesis by (simp add: list_capabilities_def)
  next
    case (Inr docs)
    show ?thesis
    proof (cases "items_of str_of docs")
      case (Inl e)
      then have "docs \<noteq> []" by auto
      with a Inr Inl show ?thesis by (simp add: list_capabilities_def)
    next
      case items: (Inr items)
      then have len: "length items = length docs" by (rule items_of_length)
      show ?thesis
      proof (cases "docs = []")
        case True
        with a Inr show ?thesis by (simp add: list_capabilities_def split: sum.split)
      next
        case False
        with a Inr items len show ?thesis by (simp add: list_capabilities_def)
      qed
    qed
  qed
qed

subsection \<open>Unfolding the in-memory store\<close>

lemmas mem_defs = mem_database_def mem_get_documents_def mem_create_document_def

section \<open>The serializer\<close>

text \<open>
  Claim C10. For a dictionary, \<^verbatim>\<open>serialize_doc\<close> returns a dictionary: the same one when
  it has no key \<^verbatim>\<open>_id\<close>; otherwise one without the key \<^verbatim>\<open>_id\<close>, whose key \<^verbatim>\<open>id\<close> holds
  the string form of the value that \<^verbatim>\<open>_id\<close> had, and in which every other key maps to
  what it mapped to before. Anything that is not a dictionary is returned unchanged.
\<close>

theorem serialize_doc_correct:
  "(\<forall>doc. x = VDict doc \<longrightarrow>
      (\<exists>d. serialize_doc str_of x = VDict d \<and>
         (map_of doc ''_id'' = None \<longrightarrow> d = doc) \<and>
         (\<forall>v. map_of doc ''_id'' = Some v \<longrightarrow>
            map_of d ''_id'' = None \<and>
            map_of d ''id'' = Some (VStr (str_of v)) \<and>
            (\<forall>k. k \<noteq> ''_id'' \<and> k \<noteq> ''id'' \<longrightarrow> map_of d k = map_of doc k)))) \<and>
   ((\<forall>doc. x \<noteq> VDict doc) \<longrightarrow> serialize_doc str_of x = x)"
proof (cases x)
  case (VDict doc)
  show ?thesis
  proof (cases "map_of doc ''_id''")
    case None
    with VDict show ?thesis by simp
  next
    case (Some v)
    with VDict show ?thesis by (simp add: map_of_serialized)
  qed
qed simp_all

text \<open>
  The theorem on a stored document, on a document without identifier and on an integer.
\<close>

theorem serialize_doc_correct_witness:
  "serialize_doc mem_str (VDict [(''_id'', VObjectId ''65a1''), (''name'', VStr ''Welding'')]) =
     VDict [(''name'', VStr ''Welding''), (''id'', VStr ''65a1'')] \<and>
   serialize_doc mem_str (VDict [(''name'', VStr ''Welding'')]) = VDict [(''name'', VStr ''Welding'')] \<and>
   serialize_doc mem_str (VInt 7) = VInt 7"
  using serialize_doc_correct [of "VDict [(''_id'', VObjectId ''65a1''), (''name'', VStr ''Welding'')]" mem_str]
    serialize_doc_correct [of "VDict [(''name'', VStr ''Welding'')]" mem_str]
    serialize_doc_correct [of "VInt 7" mem_str]
  by simp

section \<open>The schema endpoint\<close>

text \<open>
  Claim C9. The schema that \<^verbatim>\<open>GET /schema\<close> gives under \<^verbatim>\<open>capability\<close> has the
  properties \<^verbatim>\<open>name\<close>, \<^verbatim>\<open>summary\<close> and \<^verbatim>\<open>icon\<close>, of which \<^verbatim>\<open>name\<close> and \<^verbatim>\<open>summary\<close> are
  required and \<^verbatim>\<open>icon\<close> is not.
\<close>

theorem get_schema_capability:
  "\<exists>sch. map_of get_schema ''capability'' = Some sch \<and>
     required sch = [''name'', ''summary''] \<and>
     map fst (properties sch) = [''name'', ''summary'', ''icon''] \<and>
     ''icon'' \<notin> set (required sch)"
  by (simp add: get_schema_def model_json_schema_def Capability_fields_def is_required_def)

section \<open>Listing the capabilities\<close>

subsection \<open>Without a store\<close>

text \<open>
  Claim C2. When the database module cannot be imported, or its handle \<^verbatim>\<open>db\<close> is
  \<^verbatim>\<open>None\<close>, \<^verbatim>\<open>list_capabilities\<close> returns the three static defaults (CNC Machining, Sheet
  Metal Fabrication, Welding, with these summaries and icons), raises nothing and leaves
  the store as it was.
\<close>

theorem list_capabilities_store_absent:
  "imported = None \<or> (\<exists>m. imported = Some m \<and> db m = None) \<Longrightarrow>
   list_capabilities str_of imported s =
     (Inr [\<lparr>name = ''CNC Machining'',
            summary = ''Precision milling and turning for metals and plastics'',
            icon = Some ''settings''\<rparr>,
           \<lparr>name = ''Sheet Metal Fabrication'',
            summary = ''Laser cutting, bending, and assembly for prototypes to production'',
            icon = Some ''square''\<rparr>,
           \<lparr>name = ''Welding'',
            summary = ''Certified MIG/TIG welding for structural and aesthetic parts'',
            icon = Some ''hammer''\<rparr>], s)"
  by (auto simp: list_capabilities_def)

text \<open>
  The theorem with the import failing, and with a module whose handle is \<^verbatim>\<open>None\<close>.
\<close>

theorem list_capabilities_store_absent_witness:
  "list_capabilities mem_str (None :: (unit, mem_store) database option)
      \<lparr>contents = [], script = [], query_error = None\<rparr> =
     (Inr [\<lparr>name = ''CNC Machining'',
            summary = ''Precision milling and turning for metals and plastics'',
            icon = Some ''settings''\<rparr>,
           \<lparr>name = ''Sheet Metal Fabrication'',
            summary = ''Laser cutting, bending, and assembly for prototypes to production'',
            icon = Some ''square''\<rparr>,
           \<lparr>name = ''Welding'',
            summary = ''Certified MIG/TIG welding for structural and aesthetic parts'',
            icon = Some ''hammer''\<rparr>], \<lparr>contents = [], script = [], query_error = None\<rparr>) \<and>
   list_capabilities mem_str (Some (mem_database\<lparr>db := None\<rparr>))
      \<lparr>contents = [], script = [], query_error = None\<rparr> =
     (Inr [\<lparr>name = ''CNC Machining'',
            summary = ''Precision milling and turning for metals and plastics'',
            icon = Some ''settings''\<rparr>,
           \<lparr>name = ''Sheet Metal Fabrication'',
            summary = ''Laser cutting, bending, and assembly for prototypes to production'',
            icon = Some ''square''\<rparr>,
           \<lparr>name = ''Welding'',
            summary = ''Certified MIG/TIG welding for structural and aesthetic parts'',
            icon = Some ''hammer''\<rparr>], \<lparr>contents = [], script = [], query_error = None\<rparr>)"
proof -
  have absent: "(None :: (unit, mem_store) database option) = None \<or>
      (\<exists>m. (None :: (unit, mem_store) database option) = Some m \<and> db m = None)"
    by simp
  have null: "Some (mem_database\<lparr>db := None\<rparr>) = None \<or>
      (\<exists>m. Some (mem_database\<lparr>db := None\<rparr>) = Some m \<and> db m = None)"
    by simp
  show ?thesis
    using list_capabilities_store_absent [OF absent, of mem_str "\<lparr>contents = [], script = [], query_error = None\<rparr>"]
      list_capabilities_store_absent [OF null, of mem_str "\<lparr>contents = [], script = [], query_error = None\<rparr>"]
    by simp
qed

subsection \<open>A store that has capabilities\<close>

text \<open>
  Claim C4. With a valid handle, when the query yields at least one document and the
  documents hold the capabilities \<open>items\<close>, one for one and in the order of the store,
  \<^verbatim>\<open>list_capabilities\<close> returns \<open>items\<close>, and the store is in the state \<open>s1\<close> in which that one
  query left it: \<^verbatim>\<open>create_document\<close> has not run. This holds for any
  \<^verbatim>\<open>create_document\<close>, also one under which every call would change the state.
\<close>

theorem list_capabilities_existing:
  "imported = Some m \<Longrightarrow> db m = Some h \<Longrightarrow>
   get_documents m ''capability'' s = (Inr docs, s1) \<Longrightarrow> docs \<noteq> [] \<Longrightarrow>
   list_all2 holds docs items \<Longrightarrow>
   list_capabilities str_of imported s = (Inr items, s1)"
proof -
  assume a: "imported = Some m" "db m = Some h" "get_documents m ''capability'' s = (Inr docs, s1)"
    "docs \<noteq> []" "list_all2 holds docs items"
  from a(5) have i: "items_of str_of docs = Inr items" by (simp add: items_of_holds)
  from a(4,5) have "items \<noteq> []" by auto
  with a i show ?thesis by (simp add: list_capabilities_def)
qed

text \<open>
  The theorem on a store with two capabilities around an inquiry, whose next four
  inserts would succeed: both capabilities come back, in order, and the store is
  untouched.
\<close>

theorem list_capabilities_existing_witness:
  "list_capabilities mem_str (Some mem_database)
      \<lparr>contents =
         [(''capability'', VDict [(''_id'', VObjectId ''65a1''), (''name'', VStr ''Anodizing''),
             (''summary'', VStr ''Protective oxide finishes''), (''icon'', VNone)]),
          (''inquiry'', VDict [(''_id'', VObjectId ''65a2''), (''name'', VStr ''Ada'')]),
          (''capability'', VDict [(''_id'', VObjectId ''65a3''), (''name'', VStr ''Casting''),
             (''summary'', VStr ''Sand and die casting''), (''icon'', VStr ''flame'')])],
       script = [Inr ''65a4'', Inr ''65a5'', Inr ''65a6'', Inr ''65a7''],
       query_error = None\<rparr> =
     (Inr [\<lparr>name = ''Anodizing'', summary = ''Protective oxide finishes'', icon = None\<rparr>,
           \<lparr>name = ''Casting'', summary = ''Sand and die casting'', icon = Some ''flame''\<rparr>],
      \<lparr>contents =
         [(''capability'', VDict [(''_id'', VObjectId ''65a1''), (''name'', VStr ''Anodizing''),
             (''summary'', VStr ''Protective oxide finishes''), (''icon'', VNone)]),
          (''inquiry'', VDict [(''_id'', VObjectId ''65a2''), (''name'', VStr ''Ada'')]),
          (''capability'', VDict [(''_id'', VObjectId ''65a3''), (''name'', VStr ''Casting''),
             (''summary'', VStr ''Sand and die casting''), (''icon'', VStr ''flame'')])],
       script = [Inr ''65a4'', Inr ''65a5'', Inr ''65a6'', Inr ''65a7''],
       query_error = None\<rparr>)"
proof -
  let ?s = "\<lparr>contents =
         [(''capability'', VDict [(''_id'', VObjectId ''65a1''), (''name'', VStr ''Anodizing''),
             (''summary'', VStr ''Protective oxide finishes''), (''icon'', VNone)]),
          (''inquiry'', VDict [(''_id'', VObjectId ''65a2''), (''name'', VStr ''Ada'')]),
          (''capability'', VDict [(''_id'', VObjectId ''65a3''), (''name'', VStr ''Casting''),
             (''summary'', VStr ''Sand and die casting''), (''icon'', VStr ''flame'')])],
       script = [Inr ''65a4'', Inr ''65a5'', Inr ''65a6'', Inr ''65a7''],
       query_error = None\<rparr>"
  let ?docs = "[VDict [(''_id'', VObjectId ''65a1''), (''name'', VStr ''Anodizing''),
             (''summary'', VStr ''Protective oxide finishes''), (''icon'', VNone)],
          VDict [(''_id'', VObjectId ''65a3''), (''name'', VStr ''Casting''),
             (''summary'', VStr ''Sand and die casting''), (''icon'', VStr ''flame'')]]"
  have handle: "db mem_database = Some ()"
    by (simp add: mem_database_def)
  have query: "get_documents mem_database ''capability'' ?s = (Inr ?docs, ?s)"
    by (simp add: mem_defs)
  have nonempty: "?docs \<noteq> []"
    by simp
  have records: "list_all2 holds ?docs
      [\<lparr>name = ''Anodizing'', summary = ''Protective oxide finishes'', icon = None\<rparr>,
       \<lparr>name = ''Casting'', summary = ''Sand and die casting'', icon = Some ''flame''\<rparr>]"
    by (simp add: holds_def)
  show ?thesis
    by (rule list_capabilities_existing [OF refl handle query nonempty records])
qed

subsection \<open>An empty store\<close>

text \<open>
  Claim C5. With a valid handle, when the query yields no document,
  \<^verbatim>\<open>list_capabilities\<close> calls \<^verbatim>\<open>create_document\<close> on the four default dictionaries (CNC
  Machining, Sheet Metal Fabrication, Welding, Powder Coating) one after the other,
  each call from the state the one before left, whether it raised or not; then it
  queries again and returns the capabilities that the documents of this second query
  hold (none, when there are no documents).
\<close>

theorem list_capabilities_seeds:
  "imported = Some m \<Longrightarrow> db m = Some h \<Longrightarrow>
   get_documents m ''capability'' s = (Inr [], s1) \<Longrightarrow>
   s2 = snd (create_document m ''capability'' (DictDoc
          [(''name'', VStr ''CNC Machining''),
           (''summary'', VStr ''Precision milling and turning for metals and plastics''),
           (''icon'', VStr ''settings'')]) s1) \<Longrightarrow>
   s3 = snd (create_document m ''capability'' (DictDoc
          [(''name'', VStr ''Sheet Metal Fabrication''),
           (''summary'', VStr ''Laser cutting, bending, and assembly for prototypes to production''),
           (''icon'', VStr ''square'')]) s2) \<Longrightarrow>
   s4 = snd (create_document m ''capability'' (DictDoc
          [(''name'', VStr ''Welding''),
           (''summary'', VStr ''Certified MIG/TIG welding for structural and aesthetic parts''),
           (''icon'', VStr ''hammer'')]) s3) \<Longrightarrow>
   s5 = snd (create_document m ''capability'' (DictDoc
          [(''name'', VStr ''Powder Coating''),
           (''summary'', VStr ''Durable finishes with a wide range of colors and textures''),
           (''icon'', VStr ''paintbrush'')]) s4) \<Longrightarrow>
   get_documents m ''capability'' s5 = (Inr docs, s6) \<Longrightarrow>
   list_all2 holds docs items \<Longrightarrow>
   list_capabilities str_of imported s = (Inr items, s6)"
proof -
  assume a: "imported = Some m" "db m = Some h" "get_documents m ''capability'' s = (Inr [], s1)"
    and s2: "s2 = snd (create_document m ''capability'' (DictDoc
          [(''name'', VStr ''CNC Machining''),
           (''summary'', VStr ''Precision milling and turning for metals and plastics''),
           (''icon'', VStr ''settings'')]) s1)"
    and s3: "s3 = snd (create_document m ''capability'' (DictDoc
          [(''name'', VStr ''Sheet Metal Fabrication''),
           (''summary'', VStr ''Laser cutting, bending, and assembly for prototypes to production''),
           (''icon'', VStr ''square'')]) s2)"
    and s4: "s4 = snd (create_document m ''capability'' (DictDoc
          [(''name'', VStr ''Welding''),
           (''summary'', VStr ''Certified MIG/TIG welding for structural and aesthetic parts''),
           (''icon'', VStr ''hammer'')]) s3)"
    and s5: "s5 = snd (create_document m ''capability'' (DictDoc
          [(''name'', VStr ''Powder Coating''),
           (''summary'', VStr ''Durable finishes with a wide range of colors and textures''),
           (''icon'', VStr ''paintbrush'')]) s4)"
    and q: "get_documents m ''capability'' s5 = (Inr docs, s6)"
    and h: "list_all2 holds docs items"
  have step: "seed m (d # ds) t = seed m ds (snd (create_document m ''capability'' (DictDoc d) t))"
    for d ds t
    by (cases "create_document m ''capability'' (DictDoc d) t") (auto split: sum.splits)
  have "seed m defaults s1 = s5"
    unfolding defaults_def step s5 s4 s3 s2 by simp
  moreover from h have "items_of str_of docs = Inr items" by (simp add: items_of_holds)
  ultimately show ?thesis using a q by (simp add: list_capabilities_def)
qed

text \<open>
  The theorem on an empty store whose second insert raises: the three other defaults
  are stored and returned. On an empty store whose inserts all raise, the empty list is
  returned.
\<close>

theorem list_capabilities_seeds_witness:
  "list_capabilities mem_str (Some mem_database)
      \<lparr>contents = [],
       script = [Inr ''65a1'', Inl ''duplicate key'', Inr ''65a3'', Inr ''65a4''],
       query_error = None\<rparr> =
     (Inr [\<lparr>name = ''CNC Machining'',
            summary = ''Precision milling and turning for metals and plastics'',
            icon = Some ''settings''\<rparr>,
           \<lparr>name = ''Welding'',
            summary = ''Certified MIG/TIG welding for structural and aesthetic parts'',
            icon = Some ''hammer''\<rparr>,
           \<lparr>name = ''Powder Coating'',
            summary = ''Durable finishes with a wide range of colors and textures'',
            icon = Some ''paintbrush''\<rparr>],
      \<lparr>contents =
         [(''capability'', VDict [(''_id'', VObjectId ''65a1''), (''name'', VStr ''CNC Machining''),
             (''summary'', VStr ''Precision milling and turning for metals and plastics''),
             (''icon'', VStr ''settings'')]),
          (''capability'', VDict [(''_id'', VObjectId ''65a3''), (''name'', VStr ''Welding''),
             (''summary'', VStr ''Certified MIG/TIG welding for structural and aesthetic parts''),
             (''icon'', VStr ''hammer'')]),
          (''capability'', VDict [(''_id'', VObjectId ''65a4''), (''name'', VStr ''Powder Coating''),
             (''summary'', VStr ''Durable finishes with a wide range of colors and textures''),
             (''icon'', VStr ''paintbrush'')])],
       script = [], query_error = None\<rparr>) \<and>
   list_capabilities mem_str (Some mem_database)
      \<lparr>contents = [], script = [Inl ''disk full''], query_error = None\<rparr> =
     (Inr [], \<lparr>contents = [], script = [], query_error = None\<rparr>)"
proof -
  let ?s = "\<lparr>contents = [],
       script = [Inr ''65a1'', Inl ''duplicate key'', Inr ''65a3'', Inr ''65a4''],
       query_error = None\<rparr>"
  let ?docs = "[VDict [(''_id'', VObjectId ''65a1''), (''name'', VStr ''CNC Machining''),
             (''summary'', VStr ''Precision milling and turning for metals and plastics''),
             (''icon'', VStr ''settings'')],
          VDict [(''_id'', VObjectId ''65a3''), (''name'', VStr ''Welding''),
             (''summary'', VStr ''Certified MIG/TIG welding for structural and aesthetic parts''),
             (''icon'', VStr ''hammer'')],
          VDict [(''_id'', VObjectId ''65a4''), (''name'', VStr ''Powder Coating''),
             (''summary'', VStr ''Durable finishes with a wide range of colors and textures''),
             (''icon'', VStr ''paintbrush'')]]"
  let ?t = "\<lparr>contents = map (Pair ''capability'') ?docs, script = [], query_error = None\<rparr>"
  let ?f = "\<lparr>contents = [], script = [Inl ''disk full''], query_error = None\<rparr>"
  let ?e = "\<lparr>contents = [], script = [], query_error = None\<rparr>"
  let ?seeded = "\<lambda>s. snd (create_document mem_database ''capability'' (DictDoc
          [(''name'', VStr ''Powder Coating''),
           (''summary'', VStr ''Durable finishes with a wide range of colors and textures''),
           (''icon'', VStr ''paintbrush'')])
       (snd (create_document mem_database ''capability'' (DictDoc
          [(''name'', VStr ''Welding''),
           (''summary'', VStr ''Certified MIG/TIG welding for structural and aesthetic parts''),
           (''icon'', VStr ''hammer'')])
       (snd (create_document mem_database ''capability'' (DictDoc
          [(''name'', VStr ''Sheet Metal Fabrication''),
           (''summary'', VStr ''Laser cutting, bending, and assembly for prototypes to production''),
           (''icon'', VStr ''square'')])
       (snd (create_document mem_database ''capability'' (DictDoc
          [(''name'', VStr ''CNC Machining''),
           (''summary'', VStr ''Precision milling and turning for metals and plastics''),
           (''icon'', VStr ''settings'')]) s)))))))"
  have handle: "db mem_database = Some ()"
    by (simp add: mem_database_def)
  have empty: "get_documents mem_database ''capability'' ?s = (Inr [], ?s)"
    by (simp add: mem_defs)
  have seeded: "get_documents mem_database ''capability'' (?seeded ?s) = (Inr ?docs, ?t)"
    by (simp add: mem_defs)
  have records: "list_all2 holds ?docs
     [\<lparr>name = ''CNC Machining'',
            summary = ''Precision milling and turning for metals and plastics'',
            icon = Some ''settings''\<rparr>,
           \<lparr>name = ''Welding'',
            summary = ''Certified MIG/TIG welding for structural and aesthetic parts'',
            icon = Some ''hammer''\<rparr>,
           \<lparr>name = ''Powder Coating'',
            summary = ''Durable finishes with a wide range of colors and textures'',
            icon = Some ''paintbrush''\<rparr>]"
    by (simp add: holds_def)
  have empty': "get_documents mem_database ''capability'' ?f = (Inr [], ?f)"
    by (simp add: mem_defs)
  have failed: "get_documents mem_database ''capability'' (?seeded ?f) = (Inr [], ?e)"
    by (simp add: mem_defs)
  have none: "list_all2 holds [] []"
    by simp
  show ?thesis
    using list_capabilities_seeds [OF refl handle empty refl refl refl refl seeded records, of mem_str]
      list_capabilities_seeds [OF refl handle empty' refl refl refl refl failed none, of mem_str]
    by simp
qed

subsection \<open>When the list is empty\<close>

text \<open>
  Claim C1, amended. \<^verbatim>\<open>list_capabilities\<close> returns the empty list exactly when the handle
  is valid, the first query yields no document, and the query after the seeding yields
  no document either. Whenever it returns otherwise (the store absent, the first query
  or the query after seeding non-empty), the list has at least one capability.
\<close>

theorem list_capabilities_empty_iff:
  "fst (list_capabilities str_of imported s) = Inr [] \<longleftrightarrow>
     (\<exists>m h s1 s3. imported = Some m \<and> db m = Some h \<and>
        get_documents m ''capability'' s = (Inr [], s1) \<and>
        get_documents m ''capability'' (seed m defaults s1) = (Inr [], s3))"
proof (cases imported)
  case None
  then show ?thesis by (simp add: list_capabilities_def)
next
  case (Some m)
  show ?thesis
  proof (cases "db m")
    case None
    with Some show ?thesis by (simp add: list_capabilities_def)
  next
    case (Some h)
    obtain r1 s1 where q1: "get_documents m ''capability'' s = (r1, s1)"
      by (cases "get_documents m ''capability'' s")
    obtain r2 s3 where q2: "get_documents m ''capability'' (seed m defaults s1) = (r2, s3)"
      by (cases "get_documents m ''capability'' (seed m defaults s1)")
    have "fst (list_capabilities str_of imported s) = Inr [] \<longleftrightarrow> r1 = Inr [] \<and> r2 = Inr []"
      unfolding list_capabilities_handle [OF \<open>imported = Some m\<close> Some q1 q2]
      by (simp add: items_of_Nil split: sum.split)
    with \<open>imported = Some m\<close> Some q1 q2 show ?thesis by auto
  qed
qed

text \<open>
  The theorem on an empty store where only the last insert succeeds (the list is not
  empty), and on an empty store where none does.
\<close>

theorem list_capabilities_empty_iff_witness:
  "fst (list_capabilities mem_str (Some mem_database)
      \<lparr>contents = [],
       script = [Inl ''disk full'', Inl ''disk full'', Inl ''disk full'', Inr ''65a4''],
       query_error = None\<rparr>) \<noteq> Inr [] \<and>
   fst (list_capabilities mem_str (Some mem_database)
      \<lparr>contents = [], script = [], query_error = None\<rparr>) = Inr []"
  using list_capabilities_empty_iff [of mem_str "Some mem_database"
      "\<lparr>contents = [],
        script = [Inl ''disk full'', Inl ''disk full'', Inl ''disk full'', Inr ''65a4''],
        query_error = None\<rparr>"]
    list_capabilities_empty_iff [of mem_str "Some mem_database"
      "\<lparr>contents = [], script = [], query_error = None\<rparr>"]
  by (simp add: defaults_def mem_defs)

text \<open>
  Claim C1 as stated fails: on a reachable, empty store whose four inserts raise,
  \<^verbatim>\<open>list_capabilities\<close> returns the empty list.
\<close>

theorem list_capabilities_empty_counterexample:
  "list_capabilities mem_str (Some mem_database)
      \<lparr>contents = [],
       script = [Inl ''disk full'', Inl ''disk full'', Inl ''disk full'', Inl ''disk full''],
       query_error = None\<rparr> =
     (Inr [], \<lparr>contents = [], script = [], query_error = None\<rparr>)"
  by (simp add: list_capabilities_def defaults_def mem_defs)

subsection \<open>Errors that reach the caller\<close>

text \<open>
  Claim C3, amended. When the database module cannot be imported or its handle is
  \<^verbatim>\<open>None\<close>, \<^verbatim>\<open>list_capabilities\<close> returns the static defaults and no error. An exception raised
  by \<^verbatim>\<open>create_document\<close> during the seeding never leaves the function: an exception that
  does leave it was raised by one of the two queries (on the initial state, or on the
  state after the seeding), or by the validation of a document that such a query
  returned.
\<close>

theorem list_capabilities_errors:
  "(imported = None \<or> (\<exists>m. imported = Some m \<and> db m = None) \<longrightarrow>
      list_capabilities str_of imported s =
        (Inr [\<lparr>name = ''CNC Machining'',
               summary = ''Precision milling and turning for metals and plastics'',
               icon = Some ''settings''\<rparr>,
              \<lparr>name = ''Sheet Metal Fabrication'',
               summary = ''Laser cutting, bending, and assembly for prototypes to production'',
               icon = Some ''square''\<rparr>,
              \<lparr>name = ''Welding'',
               summary = ''Certified MIG/TIG welding for structural and aesthetic parts'',
               icon = Some ''hammer''\<rparr>], s)) \<and>
   (\<forall>e. fst (list_capabilities str_of imported s) = Inl e \<longrightarrow>
      (\<exists>m h s0. imported = Some m \<and> db m = Some h \<and>
         (s0 = s \<or> s0 = seed m defaults (snd (get_documents m ''capability'' s))) \<and>
         (case fst (get_documents m ''capability'' s0) of
            Inl msg \<Rightarrow> e = StoreRaised msg
          | Inr docs \<Rightarrow> items_of str_of docs = Inl e)))"
proof (cases imported)
  case None
  then show ?thesis by (simp add: list_capabilities_def)
next
  case (Some m)
  show ?thesis
  proof (cases "db m")
    case None
    with Some show ?thesis by (simp add: list_capabilities_def)
  next
    case (Some h)
    obtain r1 s1 where q1: "get_documents m ''capability'' s = (r1, s1)"
      by (cases "get_documents m ''capability'' s")
    obtain r2 s3 where q2: "get_documents m ''capability'' (seed m defaults s1) = (r2, s3)"
      by (cases "get_documents m ''capability'' (seed m defaults s1)")
    have "\<exists>s0. (s0 = s \<or> s0 = seed m defaults (snd (get_documents m ''capability'' s))) \<and>
         (case fst (get_documents m ''capability'' s0) of
            Inl msg \<Rightarrow> e = StoreRaised msg
          | Inr docs \<Rightarrow> items_of str_of docs = Inl e)"
      if e: "fst (list_capabilities str_of imported s) = Inl e" for e
    proof (cases "r1 = Inr []")
      case True
      with e have "(case r2 of Inl msg \<Rightarrow> e = StoreRaised msg | Inr docs \<Rightarrow> items_of str_of docs = Inl e)"
        unfolding list_capabilities_handle [OF \<open>imported = Some m\<close> Some q1 q2]
        by (simp split: sum.splits)
      with q1 q2 show ?thesis by auto
    next
      case False
      with e have "(case r1 of Inl msg \<Rightarrow> e = StoreRaised msg | Inr docs \<Rightarrow> items_of str_of docs = Inl e)"
        unfolding list_capabilities_handle [OF \<open>imported = Some m\<close> Some q1 q2]
        by (simp split: sum.splits if_splits)
      with q1 show ?thesis by auto
    qed
    with \<open>imported = Some m\<close> Some show ?thesis by simp
  qed
qed

text \<open>
  The theorem on a module whose handle is \<^verbatim>\<open>None\<close> over a store whose queries raise (the
  static defaults come back), and on a store holding a document that is no capability
  (the validation error leaves the function).
\<close>

theorem list_capabilities_errors_witness:
  "fst (list_capabilities mem_str (Some (mem_database\<lparr>db := None\<rparr>))
      \<lparr>contents = [], script = [], query_error = Some ''connection refused''\<rparr>) =
     Inr [\<lparr>name = ''CNC Machining'',
           summary = ''Precision milling and turning for metals and plastics'',
           icon = Some ''settings''\<rparr>,
          \<lparr>name = ''Sheet Metal Fabrication'',
           summary = ''Laser cutting, bending, and assembly for prototypes to production'',
           icon = Some ''square''\<rparr>,
          \<lparr>name = ''Welding'',
           summary = ''Certified MIG/TIG welding for structural and aesthetic parts'',
           icon = Some ''hammer''\<rparr>] \<and>
   fst (list_capabilities mem_str (Some mem_database)
      \<lparr>contents = [(''capability'', VDict [(''_id'', VObjectId ''65a1''), (''name'', VInt 3)])],
       script = [], query_error = None\<rparr>) = Inl ValidationError \<and>
   items_of mem_str [VDict [(''_id'', VObjectId ''65a1''), (''name'', VInt 3)]] = Inl ValidationError"
proof -
  have e: "fst (list_capabilities mem_str (Some mem_database)
      \<lparr>contents = [(''capability'', VDict [(''_id'', VObjectId ''65a1''), (''name'', VInt 3)])],
       script = [], query_error = None\<rparr>) = Inl ValidationError"
    by (simp add: list_capabilities_def mem_defs)
  show ?thesis
    using list_capabilities_errors [of "Some (mem_database\<lparr>db := None\<rparr>)" mem_str
        "\<lparr>contents = [], script = [], query_error = Some ''connection refused''\<rparr>"]
      list_capabilities_errors [of "Some mem_database" mem_str
        "\<lparr>contents = [(''capability'', VDict [(''_id'', VObjectId ''65a1''), (''name'', VInt 3)])],
          script = [], query_error = None\<rparr>"] e
    by simp
qed

text \<open>
  Claim C3 as stated fails: when the query raises, the exception leaves
  \<^verbatim>\<open>list_capabilities\<close>, and no default list is returned.
\<close>

theorem list_capabilities_query_raises_counterexample:
  "list_capabilities mem_str (Some mem_database)
      \<lparr>contents = [], script = [], query_error = Some ''connection refused''\<rparr> =
     (Inl (StoreRaised ''connection refused''),
      \<lparr>contents = [], script = [], query_error = Some ''connection refused''\<rparr>)"
  by (simp add: list_capabilities_def mem_defs)

section \<open>Submitting an inquiry\<close>

text \<open>
  Claim C6. When the database module cannot be imported, or its handle is \<^verbatim>\<open>None\<close>,
  \<^verbatim>\<open>create_inquiry\<close> raises an \<^verbatim>\<open>HTTPException\<close> with status 503 for every payload, returns
  no result, and leaves the store as it was.
\<close>

theorem create_inquiry_store_absent:
  "imported = None \<or> (\<exists>m. imported = Some m \<and> db m = None) \<Longrightarrow>
   (\<exists>d. create_inquiry imported payload s = (Inl (HTTPException 503 d), s) \<and>
        (d = ''Database not configured'' \<or> d = ''Database not available''))"
  by (auto simp: create_inquiry_def)

text \<open>
  The theorem with the import failing, and with a module whose handle is \<^verbatim>\<open>None\<close>, over
  a store whose next insert would succeed.
\<close>

theorem create_inquiry_store_absent_witness:
  "create_inquiry (None :: (unit, mem_store) database option)
      \<lparr>inquiry_name = ''Ada'', email = ''ada@example.com'', phone = None, company = None,
       inquiry_message = ''Quote for 40 brackets'', service = Some ''Welding''\<rparr>
      \<lparr>contents = [], script = [Inr ''65b1''], query_error = None\<rparr> =
     (Inl (HTTPException 503 ''Database not configured''),
      \<lparr>contents = [], script = [Inr ''65b1''], query_error = None\<rparr>) \<and>
   create_inquiry (Some (mem_database\<lparr>db := None\<rparr>))
      \<lparr>inquiry_name = ''Ada'', email = ''ada@example.com'', phone = None, company = None,
       inquiry_message = ''Quote for 40 brackets'', service = Some ''Welding''\<rparr>
      \<lparr>contents = [], script = [Inr ''65b1''], query_error = None\<rparr> =
     (Inl (HTTPException 503 ''Database not available''),
      \<lparr>contents = [], script = [Inr ''65b1''], query_error = None\<rparr>)"
proof -
  have absent: "(None :: (unit, mem_store) database option) = None \<or>
      (\<exists>m. (None :: (unit, mem_store) database option) = Some m \<and> db m = None)"
    by simp
  have null: "Some (mem_database\<lparr>db := None\<rparr>) = None \<or>
      (\<exists>m. Some (mem_database\<lparr>db := None\<rparr>) = Some m \<and> db m = None)"
    by simp
  show ?thesis
    using create_inquiry_store_absent [OF absent]
      create_inquiry_store_absent [OF null]
    by (simp add: create_inquiry_def)
qed

text \<open>
  Claim C7. With a valid handle, when \<^verbatim>\<open>create_document\<close> raises an exception with message
  \<open>msg\<close>, \<^verbatim>\<open>create_inquiry\<close> raises an \<^verbatim>\<open>HTTPException\<close> with status 500 whose detail is
  \<^verbatim>\<open>Failed to save inquiry: \<close> followed by the first 120 characters of \<open>msg\<close> (all of \<open>msg\<close>
  when it is no longer than that).
\<close>

theorem create_inquiry_insert_raises:
  "imported = Some m \<Longrightarrow> db m = Some h \<Longrightarrow>
   create_document m ''inquiry'' (ModelDoc payload) s = (Inl msg, s') \<Longrightarrow>
   create_inquiry imported payload s =
     (Inl (HTTPException 500 (''Failed to save inquiry: '' @ take 120 msg)), s') \<and>
   length (take 120 msg) \<le> 120 \<and> take 120 msg @ drop 120 msg = msg \<and>
   (length msg \<le> 120 \<longrightarrow> take 120 msg = msg)"
  by (simp add: create_inquiry_def)

text \<open>
  The theorem with a message of 130 characters, cut to 120, and with a short one, kept
  whole.
\<close>

theorem create_inquiry_insert_raises_witness:
  "create_inquiry (Some mem_database)
      \<lparr>inquiry_name = ''Ada'', email = ''ada@example.com'', phone = None, company = None,
       inquiry_message = ''Quote for 40 brackets'', service = Some ''Welding''\<rparr>
      \<lparr>contents = [], script = [Inl (replicate 130 CHR ''x'')], query_error = None\<rparr> =
     (Inl (HTTPException 500 (''Failed to save inquiry: '' @ replicate 120 CHR ''x'')),
      \<lparr>contents = [], script = [], query_error = None\<rparr>) \<and>
   create_inquiry (Some mem_database)
      \<lparr>inquiry_name = ''Ada'', email = ''ada@example.com'', phone = None, company = None,
       inquiry_message = ''Quote for 40 brackets'', service = Some ''Welding''\<rparr>
      \<lparr>contents = [], script = [], query_error = None\<rparr> =
     (Inl (HTTPException 500 ''Failed to save inquiry: store is read-only''),
      \<lparr>contents = [], script = [], query_error = None\<rparr>)"
proof -
  let ?p = "\<lparr>inquiry_name = ''Ada'', email = ''ada@example.com'', phone = None, company = None,
       inquiry_message = ''Quote for 40 brackets'', service = Some ''Welding''\<rparr>"
  have handle: "db mem_database = Some ()"
    by (simp add: mem_database_def)
  have long: "create_document mem_database ''inquiry'' (ModelDoc ?p)
      \<lparr>contents = [], script = [Inl (replicate 130 CHR ''x'')], query_error = None\<rparr> =
     (Inl (replicate 130 CHR ''x''), \<lparr>contents = [], script = [], query_error = None\<rparr>)"
    by (simp add: mem_defs)
  have short: "create_document mem_database ''inquiry'' (ModelDoc ?p)
      \<lparr>contents = [], script = [], query_error = None\<rparr> =
     (Inl ''store is read-only'', \<lparr>contents = [], script = [], query_error = None\<rparr>)"
    by (simp add: mem_defs)
  show ?thesis
    using create_inquiry_insert_raises [OF refl handle long]
      create_inquiry_insert_raises [OF refl handle short]
    by simp
qed

text \<open>
  Claim C8. With a valid handle, when \<^verbatim>\<open>create_document\<close>, given the collection
  \<^verbatim>\<open>inquiry\<close> and the payload as submitted, returns the identifier \<open>inserted_id\<close>,
  \<^verbatim>\<open>create_inquiry\<close> returns that identifier with the fixed confirmation message, and the
  store is in the state in which this one insert left it.
\<close>

theorem create_inquiry_success:
  "imported = Some m \<Longrightarrow> db m = Some h \<Longrightarrow>
   create_document m ''inquiry'' (ModelDoc payload) s = (Inr inserted_id, s') \<Longrightarrow>
   create_inquiry imported payload s =
     (Inr \<lparr>response_id = inserted_id,
           response_message = ''Inquiry received. Our team will contact you shortly.''\<rparr>, s')"
  by (simp add: create_inquiry_def)

text \<open>
  The theorem on the in-memory store: the identifier that comes back names, in the
  collection \<^verbatim>\<open>inquiry\<close>, a record with the submitted fields.
\<close>

theorem create_inquiry_success_witness:
  "create_inquiry (Some mem_database)
      \<lparr>inquiry_name = ''Ada'', email = ''ada@example.com'', phone = None, company = None,
       inquiry_message = ''Quote for 40 brackets'', service = Some ''Welding''\<rparr>
      \<lparr>contents = [], script = [Inr ''65b1''], query_error = None\<rparr> =
     (Inr \<lparr>response_id = ''65b1'',
           response_message = ''Inquiry received. Our team will contact you shortly.''\<rparr>,
      \<lparr>contents = [(''inquiry'', VDict [(''_id'', VObjectId ''65b1''), (''name'', VStr ''Ada''),
          (''email'', VStr ''ada@example.com''), (''phone'', VNone), (''company'', VNone),
          (''message'', VStr ''Quote for 40 brackets''), (''service'', VStr ''Welding'')])],
       script = [], query_error = None\<rparr>) \<and>
   mem_find ''inquiry'' ''65b1'' (snd (create_inquiry (Some mem_database)
      \<lparr>inquiry_name = ''Ada'', email = ''ada@example.com'', phone = None, company = None,
       inquiry_message = ''Quote for 40 brackets'', service = Some ''Welding''\<rparr>
      \<lparr>contents = [], script = [Inr ''65b1''], query_error = None\<rparr>)) =
     Some (VDict [(''_id'', VObjectId ''65b1''), (''name'', VStr ''Ada''),
          (''email'', VStr ''ada@example.com''), (''phone'', VNone), (''company'', VNone),
          (''message'', VStr ''Quote for 40 brackets''), (''service'', VStr ''Welding'')])"
proof -
  let ?p = "\<lparr>inquiry_name = ''Ada'', email = ''ada@example.com'', phone = None, company = None,
       inquiry_message = ''Quote for 40 brackets'', service = Some ''Welding''\<rparr>"
  have handle: "db mem_database = Some ()"
    by (simp add: mem_database_def)
  have insert: "create_document mem_database ''inquiry'' (ModelDoc ?p)
      \<lparr>contents = [], script = [Inr ''65b1''], query_error = None\<rparr> =
     (Inr ''65b1'',
      \<lparr>contents = [(''inquiry'', VDict [(''_id'', VObjectId ''65b1''), (''name'', VStr ''Ada''),
          (''email'', VStr ''ada@example.com''), (''phone'', VNone), (''company'', VNone),
          (''message'', VStr ''Quote for 40 brackets''), (''service'', VStr ''Welding'')])],
       script = [], query_error = None\<rparr>)"
    by (simp add: mem_defs model_dump_def)
  show ?thesis
    using create_inquiry_success [OF refl handle insert]
    by (simp add: mem_find_def)
qed

end
